theory Spec2Isabelle
  imports Main "HOL-Library.AList"
begin

section \<open>Python values and the object store\<close>

text \<open>
  The module \<^verbatim>\<open>ehforwarderbot/message.py\<close> is a set of classes whose constructors check
  the run-time type of their arguments (\<^verbatim>\<open>isinstance\<close>), copy mutable containers
  (\<^verbatim>\<open>list.copy\<close>, \<^verbatim>\<open>dict.copy\<close>) or keep a reference to them, and read attributes of the
  objects they are given. The embedding therefore has dynamically typed values, and a store
  of mutable objects addressed by references, so that aliasing is visible.
\<close>

text \<open>
  Modelled from the spec: the enumerations \<^verbatim>\<open>ChatType\<close> and \<^verbatim>\<open>MsgType\<close> come from
  \<^verbatim>\<open>constants.py\<close>, which is not among the sources. The spec calls them closed sets of
  symbolic tags; the module names the members \<^verbatim>\<open>ChatType.User\<close>, \<^verbatim>\<open>ChatType.Group\<close> and
  \<^verbatim>\<open>MsgType.Text\<close>. Any further member is a tag carrying its name.
\<close>

datatype ChatType = User | Group | ChatTypeTag string

datatype MsgType = Text | MsgTypeTag string

text \<open>
  The classes of the module, and \<^verbatim>\<open>EFBChat\<close>, which is imported from \<^verbatim>\<open>chat.py\<close> (not
  among the sources): only its identity as a class other than \<^verbatim>\<open>EFBMsg\<close> matters to
  \<^verbatim>\<open>isinstance\<close>.
\<close>

datatype pyclass =
    EFBMsg
  | EFBChat
  | EFBMsgAttribute
  | EFBMsgTarget
  | EFBMsgLinkAttribute
  | EFBMsgLocationAttribute
  | EFBMsgCommand
  | EFBMsgCommandAttribute
  | EFBMsgStatusAttribute
  | EFBMsgTargetMessage
  | EFBMsgTargetSubstitution

text \<open>
  Immutable values are carried directly; lists, dicts and class instances live in the store
  and are denoted by a reference. \<open>PyBuiltin\<close> is a function object of the \<^verbatim>\<open>builtins\<close>
  module, named by its identifier.
\<close>

datatype pyval =
    PyNone
  | PyBool bool
  | PyInt int
  | PyStr string
  | PyTuple "pyval list"
  | PyChatType ChatType
  | PyMsgType MsgType
  | PyBuiltin string
  | PyRef nat

text \<open>
  A dict is an association list in insertion order, which is the order Python iterates it in;
  an instance is its class and its \<^verbatim>\<open>__dict__\<close>.
\<close>

datatype pyobj =
    ListObj "pyval list"
  | DictObj "(pyval \<times> pyval) list"
  | InstObj pyclass "(string \<times> pyval) list"

type_synonym store = "pyobj list"

datatype error = TypeError | ValueError | NotImplementedError | AttributeError | KeyError

definition deref :: "store \<Rightarrow> pyval \<Rightarrow> pyobj option" where
  "deref h v = (case v of PyRef a \<Rightarrow> (if a < length h then Some (h ! a) else None) | _ \<Rightarrow> None)"

definition alloc :: "store \<Rightarrow> pyobj \<Rightarrow> store \<times> pyval" where
  "alloc h ob = (h @ [ob], PyRef (length h))"

text \<open>
  Any in-place mutation of the object behind a reference (\<^verbatim>\<open>append\<close>, \<^verbatim>\<open>pop\<close>,
  item assignment, \<^verbatim>\<open>clear\<close>, ...) replaces the object stored at that address.
\<close>

definition mutate :: "store \<Rightarrow> pyval \<Rightarrow> pyobj \<Rightarrow> store" where
  "mutate h v ob = (case v of PyRef a \<Rightarrow> h[a := ob] | _ \<Rightarrow> h)"

subsection \<open>Run-time type tests\<close>

fun isinstance_str :: "pyval \<Rightarrow> bool" where
  "isinstance_str (PyStr s) = True"
| "isinstance_str _ = False"

text \<open>\<^verbatim>\<open>bool\<close> is a subclass of \<^verbatim>\<open>int\<close>: \<^verbatim>\<open>isinstance(True, int)\<close> holds.\<close>

fun isinstance_int :: "pyval \<Rightarrow> bool" where
  "isinstance_int (PyInt n) = True"
| "isinstance_int (PyBool b) = True"
| "isinstance_int _ = False"

fun int_of :: "pyval \<Rightarrow> int" where
  "int_of (PyInt n) = n"
| "int_of (PyBool b) = (if b then 1 else 0)"
| "int_of _ = 0"

definition isinstance_list :: "store \<Rightarrow> pyval \<Rightarrow> bool" where
  "isinstance_list h v = (case deref h v of Some (ListObj xs) \<Rightarrow> True | _ \<Rightarrow> False)"

definition isinstance_dict :: "store \<Rightarrow> pyval \<Rightarrow> bool" where
  "isinstance_dict h v = (case deref h v of Some (DictObj kv) \<Rightarrow> True | _ \<Rightarrow> False)"

text \<open>
  The base named in each \<^verbatim>\<open>class\<close> statement: the four attribute classes derive from
  \<^verbatim>\<open>EFBMsgAttribute\<close>, the two target classes from \<^verbatim>\<open>EFBMsgTarget\<close>. No class derives
  from \<^verbatim>\<open>EFBMsg\<close> or \<^verbatim>\<open>EFBMsgCommand\<close>.
\<close>

fun superclass :: "pyclass \<Rightarrow> pyclass option" where
  "superclass EFBMsgLinkAttribute = Some EFBMsgAttribute"
| "superclass EFBMsgLocationAttribute = Some EFBMsgAttribute"
| "superclass EFBMsgCommandAttribute = Some EFBMsgAttribute"
| "superclass EFBMsgStatusAttribute = Some EFBMsgAttribute"
| "superclass EFBMsgTargetMessage = Some EFBMsgTarget"
| "superclass EFBMsgTargetSubstitution = Some EFBMsgTarget"
| "superclass _ = None"

definition issubclass :: "pyclass \<Rightarrow> pyclass \<Rightarrow> bool" where
  "issubclass c' c = (c' = c \<or> superclass c' = Some c)"

definition isinstance :: "store \<Rightarrow> pyval \<Rightarrow> pyclass \<Rightarrow> bool" where
  "isinstance h v c =
     (case deref h v of Some (InstObj c' attrs) \<Rightarrow> issubclass c' c | _ \<Rightarrow> False)"

subsection \<open>Attributes, truth values, copies\<close>

text \<open>
  Reading an attribute that the instance does not have raises \<^verbatim>\<open>AttributeError\<close>. (The
  class \<^verbatim>\<open>EFBMsg\<close>, the only one whose instances the module reads attributes of, has no
  class-level attributes to fall back on.)
\<close>

definition getattr :: "store \<Rightarrow> pyval \<Rightarrow> string \<Rightarrow> error + pyval" where
  "getattr h v n =
     (case deref h v of
        Some (InstObj c attrs) \<Rightarrow>
          (case map_of attrs n of Some x \<Rightarrow> Inr x | None \<Rightarrow> Inl AttributeError)
      | _ \<Rightarrow> Inl AttributeError)"

definition setattr :: "store \<Rightarrow> pyval \<Rightarrow> string \<Rightarrow> pyval \<Rightarrow> store" where
  "setattr h v n x =
     (case deref h v of
        Some (InstObj c attrs) \<Rightarrow> mutate h v (InstObj c (AList.update n x attrs))
      | _ \<Rightarrow> h)"

fun truthy :: "store \<Rightarrow> pyval \<Rightarrow> bool" where
  "truthy h PyNone = False"
| "truthy h (PyBool b) = b"
| "truthy h (PyInt n) = (n \<noteq> 0)"
| "truthy h (PyStr s) = (s \<noteq> [])"
| "truthy h (PyTuple xs) = (xs \<noteq> [])"
| "truthy h (PyRef a) =
     (case deref h (PyRef a) of
        Some (ListObj xs) \<Rightarrow> xs \<noteq> []
      | Some (DictObj kv) \<Rightarrow> kv \<noteq> []
      | _ \<Rightarrow> True)"
| "truthy h _ = True"

text \<open>\<^verbatim>\<open>x.copy()\<close> on a list or a dict: a new object with the same items.\<close>

definition copy :: "store \<Rightarrow> pyval \<Rightarrow> store \<times> pyval" where
  "copy h v = (case deref h v of Some ob \<Rightarrow> alloc h ob | None \<Rightarrow> (h, v))"

section \<open>EFBMsg\<close>

text \<open>
  \<^verbatim>\<open>EFBMsg.__init__\<close> takes no argument and assigns seventeen attributes; \<^verbatim>\<open>dict()\<close>
  creates the mapping of vendor-specific data.
\<close>

definition EFBMsg_init :: "store \<Rightarrow> store \<times> pyval" where
  "EFBMsg_init h =
     (let (h1, vendor_specific) = alloc h (DictObj [])
      in alloc h1 (InstObj EFBMsg
           [(''source'', PyChatType User),
            (''type'', PyMsgType Text),
            (''member'', PyNone),
            (''origin'', PyNone),
            (''destination'', PyNone),
            (''target'', PyNone),
            (''uid'', PyNone),
            (''text'', PyStr ''''),
            (''url'', PyNone),
            (''path'', PyNone),
            (''file'', PyNone),
            (''mime'', PyNone),
            (''filename'', PyNone),
            (''attributes'', PyNone),
            (''is_system'', PyBool False),
            (''edit'', PyBool False),
            (''vendor_specific'', vendor_specific)]))"

section \<open>The abstract bases\<close>

text \<open>
  \<^verbatim>\<open>EFBMsgAttribute.__init__\<close> and \<^verbatim>\<open>EFBMsgTarget.__init__\<close> have one statement, a
  \<^verbatim>\<open>raise NotImplementedError\<close>, whatever object they are called on.
\<close>

definition EFBMsgAttribute_init :: "store \<Rightarrow> pyval \<Rightarrow> error + store" where
  "EFBMsgAttribute_init h self = Inl NotImplementedError"

definition EFBMsgTarget_init :: "store \<Rightarrow> pyval \<Rightarrow> error + store" where
  "EFBMsgTarget_init h self = Inl NotImplementedError"

text \<open>
  Both bases derive from \<^verbatim>\<open>ABC\<close> and mark \<^verbatim>\<open>__init__\<close> with \<^verbatim>\<open>@abstractmethod\<close>,
  so \<^verbatim>\<open>__init__\<close> is an abstract method of each; every class derived from them in the
  module defines its own \<^verbatim>\<open>__init__\<close> and has none.
\<close>

fun abstractmethods :: "pyclass \<Rightarrow> string list" where
  "abstractmethods EFBMsgAttribute = [''__init__'']"
| "abstractmethods EFBMsgTarget = [''__init__'']"
| "abstractmethods _ = []"

text \<open>
  \<^verbatim>\<open>object.__new__\<close>, which none of the classes overrides: a class that has abstract methods
  is refused with \<^verbatim>\<open>TypeError\<close>, for any other class a new instance without attributes is
  created.
\<close>

definition object_new :: "store \<Rightarrow> pyclass \<Rightarrow> error + store \<times> pyval" where
  "object_new h c =
     (if abstractmethods c \<noteq> [] then Inl TypeError else Inr (alloc h (InstObj c [])))"

text \<open>
  The call \<^verbatim>\<open>cls()\<close> of a class whose initialiser is \<open>init\<close>: the new object is created,
  then initialised; the object is the result only when neither step raises.
\<close>

definition construct ::
  "(store \<Rightarrow> pyval \<Rightarrow> error + store) \<Rightarrow> store \<Rightarrow> pyclass \<Rightarrow> error + store \<times> pyval" where
  "construct init h c =
     (case object_new h c of
        Inl e \<Rightarrow> Inl e
      | Inr (h1, self) \<Rightarrow>
          (case init h1 self of Inl e \<Rightarrow> Inl e | Inr h2 \<Rightarrow> Inr (h2, self)))"

section \<open>EFBMsgLinkAttribute\<close>

definition EFBMsgLinkAttribute_init ::
  "store \<Rightarrow> pyval \<Rightarrow> pyval \<Rightarrow> pyval \<Rightarrow> pyval \<Rightarrow> error + store \<times> pyval" where
  "EFBMsgLinkAttribute_init h title description image_url url =
     (if title = PyNone \<or> url = PyNone then Inl ValueError
      else Inr (alloc h (InstObj EFBMsgLinkAttribute
             [(''title'', title),
              (''description'', description),
              (''image'', image_url),
              (''url'', url)])))"

section \<open>EFBMsgCommand and EFBMsgCommandAttribute\<close>

text \<open>
  The last four statements of \<^verbatim>\<open>EFBMsgCommand.__init__\<close> are
  \<^verbatim>\<open>self.name = name\<close>, \<^verbatim>\<open>self.callable = callable\<close>, \<^verbatim>\<open>self.args = args.copy()\<close>,
  \<^verbatim>\<open>self.kwargs = kwargs.copy()\<close>. The parameter is called \<^verbatim>\<open>callable_name\<close>; the
  name \<^verbatim>\<open>callable\<close> in the second one is not bound in the function or the module, so it
  denotes the builtin function.
\<close>

definition EFBMsgCommand_init ::
  "store \<Rightarrow> pyval \<Rightarrow> pyval \<Rightarrow> pyval \<Rightarrow> pyval \<Rightarrow> error + store \<times> pyval" where
  "EFBMsgCommand_init h name callable_name args kwargs =
     (let (h1, args1) = (if args = PyNone then alloc h (ListObj []) else (h, args));
          (h2, kwargs1) = (if kwargs = PyNone then alloc h1 (DictObj []) else (h1, kwargs))
      in if \<not> isinstance_str name then Inl TypeError
         else if \<not> isinstance_str callable_name then Inl TypeError
         else if \<not> isinstance_list h2 args1 then Inl TypeError
         else if \<not> isinstance_dict h2 kwargs1 then Inl TypeError
         else
           (let (h3, args_copy) = copy h2 args1;
                (h4, kwargs_copy) = copy h3 kwargs1
            in Inr (alloc h4 (InstObj EFBMsgCommand
                 [(''name'', name),
                  (''callable'', PyBuiltin ''callable''),
                  (''args'', args_copy),
                  (''kwargs'', kwargs_copy)]))))"

definition EFBMsgCommandAttribute_init :: "store \<Rightarrow> pyval \<Rightarrow> error + store \<times> pyval" where
  "EFBMsgCommandAttribute_init h commands =
     (case deref h commands of
        Some (ListObj cs) \<Rightarrow>
          (if \<not> (length cs > 0 \<and> list_all (\<lambda>i. isinstance h i EFBMsgCommand) cs)
           then Inl ValueError
           else (let (h1, commands_copy) = copy h commands
                 in Inr (alloc h1 (InstObj EFBMsgCommandAttribute
                      [(''commands'', commands_copy)]))))
      | _ \<Rightarrow> Inl ValueError)"

section \<open>EFBMsgTargetSubstitution\<close>

text \<open>
  The test on a key: a tuple of length two, both items instances of \<^verbatim>\<open>int\<close>, the first
  less than the second.
\<close>

fun index_ok :: "pyval \<Rightarrow> bool" where
  "index_ok (PyTuple [a, b]) = (isinstance_int a \<and> isinstance_int b \<and> int_of a < int_of b)"
| "index_ok _ = False"

text \<open>
  Each \<^verbatim>\<open>raise\<close> of the loop builds its message with \<^verbatim>\<open>"... %s ..." % i\<close>, a format
  with one conversion. When \<open>i\<close> is a tuple its items are the arguments of the format, so
  unless it has exactly one item the formatting raises \<^verbatim>\<open>TypeError\<close> and the exception
  named in the \<^verbatim>\<open>raise\<close> statement is never created.
\<close>

fun format_one :: "pyval \<Rightarrow> error option" where
  "format_one (PyTuple [x]) = None"
| "format_one (PyTuple xs) = Some TypeError"
| "format_one _ = None"

definition raise_formatted :: "error \<Rightarrow> pyval \<Rightarrow> error" where
  "raise_formatted e i = (case format_one i of Some e' \<Rightarrow> e' | None \<Rightarrow> e)"

text \<open>
  The body of the loop for the key \<open>i\<close> of the dict \<open>d\<close>: \<open>None\<close> when no statement
  raises. \<^verbatim>\<open>A and B\<close> evaluates \<^verbatim>\<open>B\<close> only when \<^verbatim>\<open>A\<close> is true, so \<^verbatim>\<open>chat_type\<close>
  is read only then.
\<close>

definition check_substitution :: "store \<Rightarrow> (pyval \<times> pyval) list \<Rightarrow> pyval \<Rightarrow> error option" where
  "check_substitution h d i =
     (if \<not> index_ok i then Some (raise_formatted TypeError i)
      else case map_of d i of
        None \<Rightarrow> Some KeyError
      | Some v \<Rightarrow>
          (if \<not> isinstance h v EFBMsg then Some (raise_formatted TypeError i)
           else case getattr h v ''is_chat'' of
             Inl e \<Rightarrow> Some e
           | Inr is_chat \<Rightarrow>
               (if truthy h is_chat
                then (case getattr h v ''chat_type'' of
                        Inl e \<Rightarrow> Some e
                      | Inr chat_type \<Rightarrow>
                          (if chat_type = PyChatType Group
                           then Some (raise_formatted ValueError i)
                           else None))
                else None)))"

fun check_substitutions :: "store \<Rightarrow> (pyval \<times> pyval) list \<Rightarrow> pyval list \<Rightarrow> error option" where
  "check_substitutions h d [] = None"
| "check_substitutions h d (i # rest) =
     (case check_substitution h d i of
        Some e \<Rightarrow> Some e
      | None \<Rightarrow> check_substitutions h d rest)"

text \<open>\<^verbatim>\<open>self.substitutions = substitutions\<close> keeps the caller's reference.\<close>

definition EFBMsgTargetSubstitution_init :: "store \<Rightarrow> pyval \<Rightarrow> error + store \<times> pyval" where
  "EFBMsgTargetSubstitution_init h substitutions =
     (case deref h substitutions of
        Some (DictObj d) \<Rightarrow>
          (case check_substitutions h d (map fst d) of
             Some e \<Rightarrow> Inl e
           | None \<Rightarrow> Inr (alloc h (InstObj EFBMsgTargetSubstitution
                        [(''substitutions'', substitutions)])))
      | _ \<Rightarrow> Inl TypeError)"

text \<open>
  The condition the class's documentation puts on a key \<open>(a, b)\<close>: \<open>a \<in> [0, l)\<close> and
  \<open>b \<in> (a, l]\<close>, where \<open>l\<close> is the length of the message text.
\<close>

fun range_within :: "nat \<Rightarrow> pyval \<Rightarrow> bool" where
  "range_within l (PyTuple [a, b]) =
     (0 \<le> int_of a \<and> int_of a < int l \<and> int_of a < int_of b \<and> int_of b \<le> int l)"
| "range_within l _ = False"

section \<open>Reading the store in statements\<close>

text \<open>The items of a list object and the entries of a dict object (empty for \<^verbatim>\<open>None\<close>).\<close>

definition items_of :: "store \<Rightarrow> pyval \<Rightarrow> pyval list" where
  "items_of h v = (case deref h v of Some (ListObj xs) \<Rightarrow> xs | _ \<Rightarrow> [])"

definition entries_of :: "store \<Rightarrow> pyval \<Rightarrow> (pyval \<times> pyval) list" where
  "entries_of h v = (case deref h v of Some (DictObj kv) \<Rightarrow> kv | _ \<Rightarrow> [])"

text \<open>An attribute is present when the instance has it and its value is not \<^verbatim>\<open>None\<close>.\<close>

definition present :: "store \<Rightarrow> pyval \<Rightarrow> string \<Rightarrow> bool" where
  "present h v n = (case getattr h v n of Inr x \<Rightarrow> x \<noteq> PyNone | Inl e \<Rightarrow> False)"

section \<open>Concrete programs\<close>

text \<open>
  \<^verbatim>\<open>m = EFBMsg(); subs = {k: m for k in keys}\<close>, from the empty store: the store and the
  reference \<open>subs\<close>.
\<close>

definition substitutions_to_message :: "pyval list \<Rightarrow> store \<times> pyval" where
  "substitutions_to_message keys =
     (let (h1, m) = EFBMsg_init []
      in alloc h1 (DictObj (map (\<lambda>k. (k, m)) keys)))"

text \<open>
  \<^verbatim>\<open>m = EFBMsg(); m.is_chat = False; subs = {k: m for k in keys}\<close>: the message object
  was given the attribute that the constructor of \<^verbatim>\<open>EFBMsgTargetSubstitution\<close> reads.
\<close>

definition substitutions_to_flagged_message :: "pyval list \<Rightarrow> store \<times> pyval" where
  "substitutions_to_flagged_message keys =
     (let (h1, m) = EFBMsg_init [];
          h2 = setattr h1 m ''is_chat'' (PyBool False)
      in alloc h2 (DictObj (map (\<lambda>k. (k, m)) keys)))"

text \<open>
  \<^verbatim>\<open>subs = {k: chat for k in keys}\<close> where \<open>chat\<close> is an instance of \<^verbatim>\<open>EFBChat\<close>
  with the attributes \<open>attrs\<close>.
\<close>

definition substitutions_to_chat :: "(string \<times> pyval) list \<Rightarrow> pyval list \<Rightarrow> store \<times> pyval" where
  "substitutions_to_chat attrs keys =
     (let (h1, chat) = alloc [] (InstObj EFBChat attrs)
      in alloc h1 (DictObj (map (\<lambda>k. (k, chat)) keys)))"

text \<open>
  Modelled from the spec: \<^verbatim>\<open>chat.py\<close> is not among the sources. A chat carries the two
  attributes the constructor of \<^verbatim>\<open>EFBMsgTargetSubstitution\<close> reads, \<^verbatim>\<open>is_chat\<close> and
  \<^verbatim>\<open>chat_type\<close>; the spec treats the rest of it as opaque.
\<close>

definition chat_attributes :: "ChatType \<Rightarrow> (string \<times> pyval) list" where
  "chat_attributes t = [(''is_chat'', PyBool True), (''chat_type'', PyChatType t)]"

text \<open>The mention \<^verbatim>\<open>{(0, 5): m}\<close> of a flagged message.\<close>

definition mention_substitutions :: "store \<times> pyval" where
  "mention_substitutions = substitutions_to_flagged_message [PyTuple [PyInt 0, PyInt 5]]"

text \<open>\<^verbatim>\<open>{(-3, -1): m, (0, 9): m}\<close>, meant for a message whose text is \<^verbatim>\<open>"hello"\<close>.\<close>

definition out_of_text_substitutions :: "store \<times> pyval" where
  "out_of_text_substitutions =
     substitutions_to_flagged_message
       [PyTuple [PyInt (- 3), PyInt (- 1)], PyTuple [PyInt 0, PyInt 9]]"

section \<open>Facts about the store\<close>

lemma deref_Some_bound: "deref h v = Some x \<Longrightarrow> \<exists>a. v = PyRef a \<and> a < length h"
  by (auto simp: deref_def split: pyval.splits if_splits)

lemma deref_append_old: "deref h v = Some x \<Longrightarrow> deref (h @ hs) v = Some x"
  by (auto simp: deref_def nth_append split: pyval.splits if_splits)

lemma deref_mutate_other: "v \<noteq> r \<Longrightarrow> deref (mutate h v ob) r = deref h r"
  by (cases v; cases r; simp add: deref_def mutate_def)

text \<open>
  Mutating an object the caller already had (or nothing, for \<^verbatim>\<open>None\<close>) does not touch
  an address that was free in the caller's store.
\<close>

lemma mutate_caller_keeps:
  "deref h r = None \<Longrightarrow> v = PyNone \<or> deref h v \<noteq> None \<Longrightarrow>
   deref (mutate h' v ob) r = deref h' r"
proof (cases "v = PyNone")
  case True
  then show ?thesis by (simp add: mutate_def)
next
  case False
  assume "deref h r = None" "v = PyNone \<or> deref h v \<noteq> None"
  with False have "v \<noteq> r" by auto
  then show ?thesis by (rule deref_mutate_other)
qed

lemma getattr_cong_deref: "deref h1 v = deref h2 v \<Longrightarrow> getattr h1 v n = getattr h2 v n"
  by (simp add: getattr_def)

section \<open>EFBMsg: the defaults\<close>

text \<open>
  C9. A message constructed by \<^verbatim>\<open>EFBMsg()\<close> has \<^verbatim>\<open>source = ChatType.User\<close> and
  \<^verbatim>\<open>type = MsgType.Text\<close>, next to the other defaults: empty text, both flags false, and
  \<^verbatim>\<open>uid\<close>, \<^verbatim>\<open>attributes\<close> and \<^verbatim>\<open>target\<close> absent.
\<close>

theorem EFBMsg_init_defaults:
  "case EFBMsg_init h of (h', m) \<Rightarrow>
     isinstance h' m EFBMsg
     \<and> getattr h' m ''source'' = Inr (PyChatType User)
     \<and> getattr h' m ''type'' = Inr (PyMsgType Text)
     \<and> getattr h' m ''text'' = Inr (PyStr [])
     \<and> getattr h' m ''is_system'' = Inr (PyBool False)
     \<and> getattr h' m ''edit'' = Inr (PyBool False)
     \<and> getattr h' m ''uid'' = Inr PyNone
     \<and> getattr h' m ''attributes'' = Inr PyNone
     \<and> getattr h' m ''target'' = Inr PyNone"
  by (simp add: EFBMsg_init_def alloc_def getattr_def isinstance_def issubclass_def deref_def nth_append)

text \<open>
  C5, as stated: origin and destination are present right after default construction. They
  are not: at the empty store the new message has no origin.
\<close>

theorem EFBMsg_init_origin_counterexample:
  "\<not> present (fst (EFBMsg_init [])) (snd (EFBMsg_init [])) ''origin''"
  by (simp add: EFBMsg_init_def alloc_def present_def getattr_def deref_def)

text \<open>
  C5, amended. Right after default construction \<^verbatim>\<open>origin\<close> and \<^verbatim>\<open>destination\<close> are
  \<^verbatim>\<open>None\<close>; each is present once a value other than \<^verbatim>\<open>None\<close> has been assigned to it.
\<close>

theorem EFBMsg_init_origin_destination:
  "case EFBMsg_init h of (h', m) \<Rightarrow>
     getattr h' m ''origin'' = Inr PyNone
     \<and> getattr h' m ''destination'' = Inr PyNone
     \<and> (c \<noteq> PyNone \<longrightarrow>
          present (setattr h' m ''origin'' c) m ''origin''
        \<and> present (setattr h' m ''destination'' c) m ''destination'')"
  by (simp add: EFBMsg_init_def alloc_def present_def getattr_def setattr_def mutate_def
      deref_def nth_append)

theorem EFBMsg_init_origin_destination_witness:
  "PyRef 0 \<noteq> PyNone
   \<and> present (setattr (fst (EFBMsg_init [InstObj EFBChat []])) (snd (EFBMsg_init [InstObj EFBChat []]))
        ''origin'' (PyRef 0)) (snd (EFBMsg_init [InstObj EFBChat []])) ''origin''
   \<and> \<not> present (fst (EFBMsg_init [InstObj EFBChat []])) (snd (EFBMsg_init [InstObj EFBChat []]))
        ''destination''"
  using EFBMsg_init_origin_destination [where h = "[InstObj EFBChat []]" and c = "PyRef 0"]
  by (simp add: present_def split: prod.splits)

section \<open>The abstract bases: construction\<close>

text \<open>
  C6, as stated: constructing an abstract base fails with the error its initialiser raises,
  \<^verbatim>\<open>NotImplementedError\<close>. The call \<^verbatim>\<open>EFBMsgAttribute()\<close> fails earlier and with another
  error: the class has an abstract method, so no object is created for the initialiser to
  run on, and the error is the \<^verbatim>\<open>TypeError\<close> of the abstract-class check.
\<close>

theorem construct_abstract_base_counterexample:
  "construct EFBMsgAttribute_init [] EFBMsgAttribute = Inl TypeError
   \<and> construct EFBMsgAttribute_init [] EFBMsgAttribute \<noteq> Inl NotImplementedError"
  by (simp add: construct_def object_new_def)

text \<open>
  C6, amended. Constructing \<^verbatim>\<open>EFBMsgAttribute\<close> or \<^verbatim>\<open>EFBMsgTarget\<close> fails in every store
  with \<^verbatim>\<open>TypeError\<close>, before the initialiser runs. The initialiser of either base fails with
  \<^verbatim>\<open>NotImplementedError\<close> on every object it is run on, so constructing any class \<open>c\<close>
  through it fails too: with \<^verbatim>\<open>TypeError\<close> when \<open>c\<close> is abstract, with
  \<^verbatim>\<open>NotImplementedError\<close> when it is not. No path returns an instance.
\<close>

theorem construct_abstract_base_fails:
  "construct EFBMsgAttribute_init h EFBMsgAttribute = Inl TypeError
   \<and> construct EFBMsgTarget_init h EFBMsgTarget = Inl TypeError
   \<and> EFBMsgAttribute_init h self = Inl NotImplementedError
   \<and> EFBMsgTarget_init h self = Inl NotImplementedError
   \<and> construct EFBMsgAttribute_init h c =
       Inl (if abstractmethods c = [] then NotImplementedError else TypeError)
   \<and> construct EFBMsgTarget_init h c =
       Inl (if abstractmethods c = [] then NotImplementedError else TypeError)"
  by (simp add: construct_def object_new_def alloc_def EFBMsgAttribute_init_def
      EFBMsgTarget_init_def)

section \<open>EFBMsgLinkAttribute: the required fields\<close>

text \<open>
  C4, as stated: construction fails when the title is empty. It does not: the empty string is
  not \<^verbatim>\<open>None\<close>, and \<^verbatim>\<open>EFBMsgLinkAttribute("", url="https://example.com")\<close> returns
  an instance.
\<close>

theorem EFBMsgLinkAttribute_init_empty_title_counterexample:
  "EFBMsgLinkAttribute_init [] (PyStr []) PyNone PyNone (PyStr ''https://example.com'') =
     Inr ([InstObj EFBMsgLinkAttribute
             [(''title'', PyStr []), (''description'', PyNone), (''image'', PyNone),
              (''url'', PyStr ''https://example.com'')]],
          PyRef 0)"
  by (simp add: EFBMsgLinkAttribute_init_def alloc_def)

text \<open>
  C4, amended. Construction fails with \<^verbatim>\<open>ValueError\<close> exactly when the title or the url
  is \<^verbatim>\<open>None\<close> (absent); otherwise, also for empty strings, it succeeds and the instance
  holds title, url, description and image as given, a description or image left out being
  \<^verbatim>\<open>None\<close>.
\<close>

theorem EFBMsgLinkAttribute_init_required:
  "(title = PyNone \<or> url = PyNone \<longrightarrow>
      EFBMsgLinkAttribute_init h title description image_url url = Inl ValueError)
   \<and> (title \<noteq> PyNone \<and> url \<noteq> PyNone \<longrightarrow>
      (\<exists>h' self.
          EFBMsgLinkAttribute_init h title description image_url url = Inr (h', self)
        \<and> isinstance h' self EFBMsgLinkAttribute
        \<and> getattr h' self ''title'' = Inr title
        \<and> getattr h' self ''url'' = Inr url
        \<and> getattr h' self ''description'' = Inr description
        \<and> getattr h' self ''image'' = Inr image_url))"
  by (simp add: EFBMsgLinkAttribute_init_def alloc_def getattr_def isinstance_def issubclass_def deref_def)

theorem EFBMsgLinkAttribute_init_required_witness:
  "PyStr ''Example'' \<noteq> PyNone \<and> PyStr ''https://example.com'' \<noteq> PyNone
   \<and> (\<exists>h' self.
          EFBMsgLinkAttribute_init [] (PyStr ''Example'') PyNone PyNone
            (PyStr ''https://example.com'') = Inr (h', self)
        \<and> getattr h' self ''title'' = Inr (PyStr ''Example'')
        \<and> getattr h' self ''url'' = Inr (PyStr ''https://example.com'')
        \<and> getattr h' self ''description'' = Inr PyNone
        \<and> getattr h' self ''image'' = Inr PyNone)
   \<and> EFBMsgLinkAttribute_init [] PyNone PyNone PyNone (PyStr ''https://example.com'') =
        Inl ValueError"
proof -
  have ok: "PyStr ''Example'' \<noteq> PyNone \<and> PyStr ''https://example.com'' \<noteq> PyNone"
    by simp
  have absent: "PyNone = PyNone \<or> PyStr ''https://example.com'' = PyNone"
    by simp
  from EFBMsgLinkAttribute_init_required
         [where h = "[]" and title = "PyStr ''Example''" and description = PyNone
            and image_url = PyNone and url = "PyStr ''https://example.com''"] ok
       EFBMsgLinkAttribute_init_required
         [where h = "[]" and title = PyNone and description = PyNone
            and image_url = PyNone and url = "PyStr ''https://example.com''"] absent
  show ?thesis by blast
qed

section \<open>EFBMsgCommand: checks, stored fields and copies\<close>

text \<open>
  C1. \<^verbatim>\<open>EFBMsgCommand("Vote", "vote", [], {})\<close>: the instance holds the name it was given,
  but its \<^verbatim>\<open>callable\<close> attribute is the builtin function \<^verbatim>\<open>callable\<close>, not the string
  \<^verbatim>\<open>"vote"\<close> passed as \<^verbatim>\<open>callable_name\<close>.
\<close>

theorem EFBMsgCommand_init_callable_is_builtin:
  "EFBMsgCommand_init [ListObj [], DictObj []] (PyStr ''Vote'') (PyStr ''vote'')
       (PyRef 0) (PyRef 1) =
     Inr ([ListObj [], DictObj [], ListObj [], DictObj [],
           InstObj EFBMsgCommand
             [(''name'', PyStr ''Vote''), (''callable'', PyBuiltin ''callable''),
              (''args'', PyRef 2), (''kwargs'', PyRef 3)]],
          PyRef 4)
   \<and> PyBuiltin ''callable'' \<noteq> PyStr ''vote''"
  by (simp add: EFBMsgCommand_init_def alloc_def copy_def isinstance_list_def
      isinstance_dict_def deref_def)

lemma EFBMsgCommand_init_TypeError:
  assumes "\<not> isinstance_str name \<or> \<not> isinstance_str callable_name
     \<or> (args \<noteq> PyNone \<and> \<not> isinstance_list h args)
     \<or> (kwargs \<noteq> PyNone \<and> \<not> isinstance_dict h kwargs)"
  shows "EFBMsgCommand_init h name callable_name args kwargs = Inl TypeError"
  using assms
  by (auto simp: EFBMsgCommand_init_def alloc_def isinstance_list_def isinstance_dict_def
      deref_def nth_append split: pyval.splits option.splits pyobj.splits if_splits)

lemma EFBMsgCommand_init_result:
  assumes "isinstance_str name" "isinstance_str callable_name"
    "args = PyNone \<or> isinstance_list h args" "kwargs = PyNone \<or> isinstance_dict h kwargs"
  shows "\<exists>h' self a k. EFBMsgCommand_init h name callable_name args kwargs = Inr (h', self)
     \<and> getattr h' self ''name'' = Inr name
     \<and> getattr h' self ''callable'' = Inr (PyBuiltin ''callable'')
     \<and> getattr h' self ''args'' = Inr a \<and> getattr h' self ''kwargs'' = Inr k
     \<and> deref h self = None \<and> deref h a = None \<and> deref h k = None \<and> a \<noteq> k
     \<and> deref h' a = Some (ListObj (items_of h args))
     \<and> deref h' k = Some (DictObj (entries_of h kwargs))"
  using assms
  by (auto simp: EFBMsgCommand_init_def alloc_def copy_def isinstance_list_def
      isinstance_dict_def items_of_def entries_of_def getattr_def deref_def nth_append
      split: pyval.splits option.splits pyobj.splits if_splits)

text \<open>
  C8. Construction fails with \<^verbatim>\<open>TypeError\<close> when the name or the callable name is not a
  string, when \<^verbatim>\<open>args\<close> is given (not \<^verbatim>\<open>None\<close>) and is not a list, or when
  \<^verbatim>\<open>kwargs\<close> is given and is not a dict. Otherwise it succeeds, and the stored \<^verbatim>\<open>args\<close>
  and \<^verbatim>\<open>kwargs\<close> are new objects with the caller's items: they are not the caller's
  containers, and whatever the caller's containers are changed to afterwards, the command
  still refers to the same stored objects with the same contents.
\<close>

theorem EFBMsgCommand_init_checks_and_copies:
  "(\<not> isinstance_str name \<or> \<not> isinstance_str callable_name
     \<or> (args \<noteq> PyNone \<and> \<not> isinstance_list h args)
     \<or> (kwargs \<noteq> PyNone \<and> \<not> isinstance_dict h kwargs)
    \<longrightarrow> EFBMsgCommand_init h name callable_name args kwargs = Inl TypeError)
   \<and> (isinstance_str name \<and> isinstance_str callable_name
     \<and> (args = PyNone \<or> isinstance_list h args)
     \<and> (kwargs = PyNone \<or> isinstance_dict h kwargs)
    \<longrightarrow> (\<exists>h' self a k.
          EFBMsgCommand_init h name callable_name args kwargs = Inr (h', self)
        \<and> getattr h' self ''args'' = Inr a \<and> getattr h' self ''kwargs'' = Inr k
        \<and> a \<noteq> args \<and> k \<noteq> kwargs
        \<and> deref h' a = Some (ListObj (items_of h args))
        \<and> deref h' k = Some (DictObj (entries_of h kwargs))
        \<and> (\<forall>ob1 ob2.
              getattr (mutate (mutate h' args ob1) kwargs ob2) self ''args'' = Inr a
            \<and> getattr (mutate (mutate h' args ob1) kwargs ob2) self ''kwargs'' = Inr k
            \<and> deref (mutate (mutate h' args ob1) kwargs ob2) a =
                Some (ListObj (items_of h args))
            \<and> deref (mutate (mutate h' args ob1) kwargs ob2) k =
                Some (DictObj (entries_of h kwargs)))))"
proof (intro conjI impI)
  assume "\<not> isinstance_str name \<or> \<not> isinstance_str callable_name
     \<or> (args \<noteq> PyNone \<and> \<not> isinstance_list h args)
     \<or> (kwargs \<noteq> PyNone \<and> \<not> isinstance_dict h kwargs)"
  then show "EFBMsgCommand_init h name callable_name args kwargs = Inl TypeError"
    by (rule EFBMsgCommand_init_TypeError)
next
  assume valid: "isinstance_str name \<and> isinstance_str callable_name
     \<and> (args = PyNone \<or> isinstance_list h args)
     \<and> (kwargs = PyNone \<or> isinstance_dict h kwargs)"
  then obtain h' self a k where r:
    "EFBMsgCommand_init h name callable_name args kwargs = Inr (h', self)"
    "getattr h' self ''args'' = Inr a" "getattr h' self ''kwargs'' = Inr k"
    "deref h self = None" "deref h a = None" "deref h k = None"
    "deref h' a = Some (ListObj (items_of h args))"
    "deref h' k = Some (DictObj (entries_of h kwargs))"
    using EFBMsgCommand_init_result [of name callable_name args h kwargs] by blast
  from valid have av: "args = PyNone \<or> deref h args \<noteq> None"
    and kv: "kwargs = PyNone \<or> deref h kwargs \<noteq> None"
    by (auto simp: isinstance_list_def isinstance_dict_def)
  have keep: "deref (mutate (mutate h' args ob1) kwargs ob2) x = deref h' x"
    if "deref h x = None" for x ob1 ob2
    using that av kv by (simp add: mutate_caller_keeps [of h])
  have "a \<noteq> args" "k \<noteq> kwargs"
    using r(5,6,7,8) av kv by (auto simp: deref_def)
  moreover have "getattr (mutate (mutate h' args ob1) kwargs ob2) self n = getattr h' self n"
    for ob1 ob2 n
    by (rule getattr_cong_deref) (rule keep [OF r(4)])
  ultimately show "\<exists>h' self a k.
          EFBMsgCommand_init h name callable_name args kwargs = Inr (h', self)
        \<and> getattr h' self ''args'' = Inr a \<and> getattr h' self ''kwargs'' = Inr k
        \<and> a \<noteq> args \<and> k \<noteq> kwargs
        \<and> deref h' a = Some (ListObj (items_of h args))
        \<and> deref h' k = Some (DictObj (entries_of h kwargs))
        \<and> (\<forall>ob1 ob2.
              getattr (mutate (mutate h' args ob1) kwargs ob2) self ''args'' = Inr a
            \<and> getattr (mutate (mutate h' args ob1) kwargs ob2) self ''kwargs'' = Inr k
            \<and> deref (mutate (mutate h' args ob1) kwargs ob2) a =
                Some (ListObj (items_of h args))
            \<and> deref (mutate (mutate h' args ob1) kwargs ob2) k =
                Some (DictObj (entries_of h kwargs)))"
    using r keep by (intro exI [of _ h'] exI [of _ self] exI [of _ a] exI [of _ k]) simp
qed

theorem EFBMsgCommand_init_checks_and_copies_witness:
  "isinstance_str (PyStr ''Vote'') \<and> isinstance_str (PyStr ''vote'')
   \<and> isinstance_list [ListObj [PyInt 1], DictObj []] (PyRef 0)
   \<and> isinstance_dict [ListObj [PyInt 1], DictObj []] (PyRef 1)
   \<and> (\<exists>h' self a k.
          EFBMsgCommand_init [ListObj [PyInt 1], DictObj []] (PyStr ''Vote'') (PyStr ''vote'')
            (PyRef 0) (PyRef 1) = Inr (h', self)
        \<and> getattr h' self ''args'' = Inr a \<and> a \<noteq> PyRef 0
        \<and> deref h' a = Some (ListObj [PyInt 1])
        \<and> deref (mutate (mutate h' (PyRef 0) (ListObj [])) (PyRef 1) (DictObj [])) a =
             Some (ListObj [PyInt 1]))
   \<and> \<not> isinstance_str (PyInt 7)
   \<and> EFBMsgCommand_init [] (PyInt 7) (PyStr ''vote'') PyNone PyNone = Inl TypeError"
proof -
  let ?h = "[ListObj [PyInt 1], DictObj []]"
  have valid: "isinstance_str (PyStr ''Vote'') \<and> isinstance_str (PyStr ''vote'')
     \<and> (PyRef 0 = PyNone \<or> isinstance_list ?h (PyRef 0))
     \<and> (PyRef 1 = PyNone \<or> isinstance_dict ?h (PyRef 1))"
    by (simp add: isinstance_list_def isinstance_dict_def deref_def)
  have items: "items_of ?h (PyRef 0) = [PyInt 1]"
    by (simp add: items_of_def deref_def)
  have bad: "\<not> isinstance_str (PyInt 7) \<or> \<not> isinstance_str (PyStr ''vote'')
     \<or> (PyNone \<noteq> PyNone \<and> \<not> isinstance_list [] PyNone)
     \<or> (PyNone \<noteq> PyNone \<and> \<not> isinstance_dict [] PyNone)"
    by simp
  from EFBMsgCommand_init_checks_and_copies
         [where h = ?h and name = "PyStr ''Vote''" and callable_name = "PyStr ''vote''"
            and args = "PyRef 0" and kwargs = "PyRef 1"] valid
  obtain h' self a k where r:
    "EFBMsgCommand_init ?h (PyStr ''Vote'') (PyStr ''vote'') (PyRef 0) (PyRef 1) = Inr (h', self)"
    "getattr h' self ''args'' = Inr a" "a \<noteq> PyRef 0"
    "deref h' a = Some (ListObj (items_of ?h (PyRef 0)))"
    "\<And>ob1 ob2. deref (mutate (mutate h' (PyRef 0) ob1) (PyRef 1) ob2) a =
        Some (ListObj (items_of ?h (PyRef 0)))"
    by blast
  from EFBMsgCommand_init_checks_and_copies
         [where h = "[]" and name = "PyInt 7" and callable_name = "PyStr ''vote''"
            and args = PyNone and kwargs = PyNone] bad
  have fail: "EFBMsgCommand_init [] (PyInt 7) (PyStr ''vote'') PyNone PyNone = Inl TypeError"
    by blast
  from r items have "\<exists>h' self a k.
          EFBMsgCommand_init ?h (PyStr ''Vote'') (PyStr ''vote'')
            (PyRef 0) (PyRef 1) = Inr (h', self)
        \<and> getattr h' self ''args'' = Inr a \<and> a \<noteq> PyRef 0
        \<and> deref h' a = Some (ListObj [PyInt 1])
        \<and> deref (mutate (mutate h' (PyRef 0) (ListObj [])) (PyRef 1) (DictObj [])) a =
             Some (ListObj [PyInt 1])"
    by auto
  with valid fail show ?thesis by simp
qed

section \<open>EFBMsgCommandAttribute: checks and the copy\<close>

lemma EFBMsgCommandAttribute_init_result:
  assumes "deref h commands = Some (ListObj cs)" "cs \<noteq> []"
    "list_all (\<lambda>i. isinstance h i EFBMsgCommand) cs"
  shows "EFBMsgCommandAttribute_init h commands =
     Inr (h @ [ListObj cs, InstObj EFBMsgCommandAttribute [(''commands'', PyRef (length h))]],
          PyRef (Suc (length h)))"
  using assms by (simp add: EFBMsgCommandAttribute_init_def copy_def alloc_def)

text \<open>
  C7. On a non-empty list whose items are all instances of \<^verbatim>\<open>EFBMsgCommand\<close>,
  construction succeeds and the stored \<^verbatim>\<open>commands\<close> is a new list with the same items:
  it is not the caller's list, and whatever the caller's list is changed to afterwards, the
  attribute still refers to the stored list with its items unchanged. On anything that is not
  a list, on the empty list and on a list with an item that is not a command, construction
  fails with \<^verbatim>\<open>ValueError\<close>.
\<close>

theorem EFBMsgCommandAttribute_init_checks_and_copies:
  "(deref h commands = Some (ListObj cs) \<and> cs \<noteq> []
      \<and> (\<forall>c \<in> set cs. isinstance h c EFBMsgCommand)
    \<longrightarrow> (\<exists>h' self stored.
          EFBMsgCommandAttribute_init h commands = Inr (h', self)
        \<and> isinstance h' self EFBMsgCommandAttribute
        \<and> getattr h' self ''commands'' = Inr stored
        \<and> stored \<noteq> commands
        \<and> deref h' stored = Some (ListObj cs)
        \<and> (\<forall>ob. getattr (mutate h' commands ob) self ''commands'' = Inr stored
               \<and> deref (mutate h' commands ob) stored = Some (ListObj cs))))
   \<and> (\<not> isinstance_list h commands
    \<longrightarrow> EFBMsgCommandAttribute_init h commands = Inl ValueError)
   \<and> (deref h commands = Some (ListObj cs)
      \<and> (cs = [] \<or> (\<exists>c \<in> set cs. \<not> isinstance h c EFBMsgCommand))
    \<longrightarrow> EFBMsgCommandAttribute_init h commands = Inl ValueError)"
proof (intro conjI impI)
  assume ok: "deref h commands = Some (ListObj cs) \<and> cs \<noteq> []
      \<and> (\<forall>c \<in> set cs. isinstance h c EFBMsgCommand)"
  let ?stored = "PyRef (length h)"
  let ?self = "PyRef (Suc (length h))"
  let ?h' = "h @ [ListObj cs, InstObj EFBMsgCommandAttribute [(''commands'', ?stored)]]"
  from ok have res: "EFBMsgCommandAttribute_init h commands = Inr (?h', ?self)"
    by (intro EFBMsgCommandAttribute_init_result) (simp_all add: list_all_iff)
  have fresh: "deref h ?stored = None" "deref h ?self = None"
    by (simp_all add: deref_def)
  from ok have old: "commands = PyNone \<or> deref h commands \<noteq> None" by simp
  have keep: "deref (mutate ?h' commands ob) x = deref ?h' x" if "deref h x = None" for x ob
    using that old by (rule mutate_caller_keeps)
  have st: "deref ?h' ?stored = Some (ListObj cs)"
    by (simp add: deref_def nth_append)
  have ga: "getattr ?h' ?self ''commands'' = Inr ?stored"
    by (simp add: getattr_def deref_def nth_append)
  have inst: "isinstance ?h' ?self EFBMsgCommandAttribute"
    by (simp add: isinstance_def issubclass_def deref_def nth_append)
  have ne: "?stored \<noteq> commands"
    using ok fresh(1) by auto
  have "getattr (mutate ?h' commands ob) ?self ''commands'' = Inr ?stored" for ob
    using getattr_cong_deref [OF keep [OF fresh(2)], of ob "''commands''"] ga by simp
  with res st ga inst ne keep [OF fresh(1)]
  show "\<exists>h' self stored.
          EFBMsgCommandAttribute_init h commands = Inr (h', self)
        \<and> isinstance h' self EFBMsgCommandAttribute
        \<and> getattr h' self ''commands'' = Inr stored
        \<and> stored \<noteq> commands
        \<and> deref h' stored = Some (ListObj cs)
        \<and> (\<forall>ob. getattr (mutate h' commands ob) self ''commands'' = Inr stored
               \<and> deref (mutate h' commands ob) stored = Some (ListObj cs))"
    by (intro exI [of _ ?h'] exI [of _ ?self] exI [of _ ?stored]) simp
next
  assume "\<not> isinstance_list h commands"
  then show "EFBMsgCommandAttribute_init h commands = Inl ValueError"
    by (auto simp: EFBMsgCommandAttribute_init_def isinstance_list_def
        split: option.splits pyobj.splits)
next
  assume "deref h commands = Some (ListObj cs)
      \<and> (cs = [] \<or> (\<exists>c \<in> set cs. \<not> isinstance h c EFBMsgCommand))"
  then show "EFBMsgCommandAttribute_init h commands = Inl ValueError"
    by (auto simp: EFBMsgCommandAttribute_init_def list_all_iff)
qed

theorem EFBMsgCommandAttribute_init_checks_and_copies_witness:
  "(\<exists>h' self stored.
      EFBMsgCommandAttribute_init [InstObj EFBMsgCommand [], ListObj [PyRef 0]] (PyRef 1) =
        Inr (h', self)
    \<and> getattr h' self ''commands'' = Inr stored
    \<and> stored \<noteq> PyRef 1
    \<and> deref h' stored = Some (ListObj [PyRef 0])
    \<and> deref (mutate h' (PyRef 1) (ListObj [])) stored = Some (ListObj [PyRef 0]))
   \<and> EFBMsgCommandAttribute_init [ListObj []] (PyRef 0) = Inl ValueError
   \<and> EFBMsgCommandAttribute_init [] (PyStr ''vote'') = Inl ValueError
   \<and> EFBMsgCommandAttribute_init [ListObj [PyInt 1]] (PyRef 0) = Inl ValueError"
proof -
  let ?h = "[InstObj EFBMsgCommand [], ListObj [PyRef 0]]"
  have ok: "deref ?h (PyRef 1) = Some (ListObj [PyRef 0]) \<and> [PyRef 0] \<noteq> []
      \<and> (\<forall>c \<in> set [PyRef 0]. isinstance ?h c EFBMsgCommand)"
    by (simp add: deref_def isinstance_def issubclass_def)
  have empty: "deref [ListObj []] (PyRef 0) = Some (ListObj [])
      \<and> ([] = [] \<or> (\<exists>c \<in> set []. \<not> isinstance [ListObj []] c EFBMsgCommand))"
    by (simp add: deref_def)
  have nolist: "\<not> isinstance_list [] (PyStr ''vote'')"
    by (simp add: isinstance_list_def deref_def)
  have other: "deref [ListObj [PyInt 1]] (PyRef 0) = Some (ListObj [PyInt 1])
      \<and> ([PyInt 1] = [] \<or> (\<exists>c \<in> set [PyInt 1]. \<not> isinstance [ListObj [PyInt 1]] c EFBMsgCommand))"
    by (simp add: deref_def isinstance_def issubclass_def)
  from EFBMsgCommandAttribute_init_checks_and_copies
         [where h = ?h and commands = "PyRef 1" and cs = "[PyRef 0]"] ok
  have 1: "\<exists>h' self stored.
      EFBMsgCommandAttribute_init ?h (PyRef 1) = Inr (h', self)
    \<and> getattr h' self ''commands'' = Inr stored
    \<and> stored \<noteq> PyRef 1
    \<and> deref h' stored = Some (ListObj [PyRef 0])
    \<and> deref (mutate h' (PyRef 1) (ListObj [])) stored = Some (ListObj [PyRef 0])"
    by blast
  from EFBMsgCommandAttribute_init_checks_and_copies
         [where h = "[ListObj []]" and commands = "PyRef 0" and cs = "[]"] empty
  have 2: "EFBMsgCommandAttribute_init [ListObj []] (PyRef 0) = Inl ValueError"
    by blast
  from EFBMsgCommandAttribute_init_checks_and_copies
         [where h = "[]" and commands = "PyStr ''vote''" and cs = "[]"] nolist
  have 3: "EFBMsgCommandAttribute_init [] (PyStr ''vote'') = Inl ValueError"
    by blast
  from EFBMsgCommandAttribute_init_checks_and_copies
         [where h = "[ListObj [PyInt 1]]" and commands = "PyRef 0" and cs = "[PyInt 1]"] other
  have 4: "EFBMsgCommandAttribute_init [ListObj [PyInt 1]] (PyRef 0) = Inl ValueError"
    by blast
  from 1 2 3 4 show ?thesis by blast
qed

section \<open>EFBMsgTargetSubstitution: the keys\<close>

text \<open>
  C10. On an empty dict construction succeeds: the loop over the keys has nothing to reject
  and nothing asks for an entry. The new target holds the caller's dict, which has no entry.
\<close>

theorem EFBMsgTargetSubstitution_init_empty:
  "deref h substitutions = Some (DictObj []) \<Longrightarrow>
   \<exists>h' self.
       EFBMsgTargetSubstitution_init h substitutions = Inr (h', self)
     \<and> isinstance h' self EFBMsgTargetSubstitution
     \<and> getattr h' self ''substitutions'' = Inr substitutions
     \<and> entries_of h' substitutions = []"
  by (auto simp: EFBMsgTargetSubstitution_init_def alloc_def isinstance_def issubclass_def getattr_def
      entries_of_def deref_def nth_append split: pyval.splits if_splits)

theorem EFBMsgTargetSubstitution_init_empty_witness:
  "deref [DictObj []] (PyRef 0) = Some (DictObj [])
   \<and> (\<exists>h' self.
       EFBMsgTargetSubstitution_init [DictObj []] (PyRef 0) = Inr (h', self)
     \<and> isinstance h' self EFBMsgTargetSubstitution
     \<and> getattr h' self ''substitutions'' = Inr (PyRef 0)
     \<and> entries_of h' (PyRef 0) = [])"
proof -
  have e: "deref [DictObj []] (PyRef 0) = Some (DictObj [])"
    by (simp add: deref_def)
  from e EFBMsgTargetSubstitution_init_empty [OF e] show ?thesis by simp
qed

lemma check_substitutions_index_ok:
  "check_substitutions h d ks = None \<Longrightarrow> k \<in> set ks \<Longrightarrow> index_ok k"
  by (induction ks) (auto simp: check_substitution_def raise_formatted_def split: option.splits if_splits)

lemma index_ok_cases:
  "index_ok k \<Longrightarrow>
   \<exists>a b. k = PyTuple [a, b] \<and> isinstance_int a \<and> isinstance_int b \<and> int_of a < int_of b"
  by (induction k rule: index_ok.induct) simp_all

text \<open>
  C3, amended. After a successful construction the target holds the caller's dict, and every
  key of it is a tuple of two integers of which the first is less than the second. Neither
  \<open>0 \<le> start\<close> nor \<open>end \<le> len(text)\<close> is among the tests: the constructor is not given the
  text.
\<close>

theorem EFBMsgTargetSubstitution_init_keys:
  assumes "EFBMsgTargetSubstitution_init h substitutions = Inr (h', self)"
    and "key \<in> set (map fst (entries_of h' substitutions))"
  shows "getattr h' self ''substitutions'' = Inr substitutions
     \<and> (\<exists>a b. key = PyTuple [a, b] \<and> isinstance_int a \<and> isinstance_int b
             \<and> int_of a < int_of b)"
proof -
  from assms(1) obtain d where d: "deref h substitutions = Some (DictObj d)"
    and chk: "check_substitutions h d (map fst d) = None"
    and h': "h' = h @ [InstObj EFBMsgTargetSubstitution [(''substitutions'', substitutions)]]"
    and self: "self = PyRef (length h)"
    by (auto simp: EFBMsgTargetSubstitution_init_def alloc_def
        split: option.splits pyobj.splits)
  from d have d': "deref h' substitutions = Some (DictObj d)"
    unfolding h' by (rule deref_append_old)
  with assms(2) have "key \<in> set (map fst d)"
    by (simp add: entries_of_def)
  with chk have "index_ok key"
    by (rule check_substitutions_index_ok)
  moreover have "getattr h' self ''substitutions'' = Inr substitutions"
    by (simp add: h' self getattr_def deref_def)
  ultimately show ?thesis
    by (simp add: index_ok_cases)
qed


lemma out_of_text_store:
  "out_of_text_substitutions =
     ([DictObj [],
       InstObj EFBMsg
        [(''source'', PyChatType User), (''type'', PyMsgType Text),
         (''member'', PyNone), (''origin'', PyNone), (''destination'', PyNone),
         (''target'', PyNone), (''uid'', PyNone), (''text'', PyStr []),
         (''url'', PyNone), (''path'', PyNone), (''file'', PyNone),
         (''mime'', PyNone), (''filename'', PyNone), (''attributes'', PyNone),
         (''is_system'', PyBool False), (''edit'', PyBool False),
         (''vendor_specific'', PyRef 0), (''is_chat'', PyBool False)],
       DictObj [(PyTuple [PyInt (- 3), PyInt (- 1)], PyRef 1),
                (PyTuple [PyInt 0, PyInt 9], PyRef 1)]],
      PyRef 2)"
  by (simp add: out_of_text_substitutions_def substitutions_to_flagged_message_def
      EFBMsg_init_def alloc_def setattr_def mutate_def deref_def)

text \<open>
  C3, as stated: every key of an accepted mapping lies within the text. The dict
  \<^verbatim>\<open>{(-3, -1): m, (0, 9): m}\<close> is accepted, and for the text \<^verbatim>\<open>"hello"\<close> the first key
  starts before 0 and the second ends after the text.
\<close>

theorem EFBMsgTargetSubstitution_init_range_counterexample:
  "EFBMsgTargetSubstitution_init (fst out_of_text_substitutions) (snd out_of_text_substitutions) =
     Inr (fst out_of_text_substitutions @
            [InstObj EFBMsgTargetSubstitution
               [(''substitutions'', snd out_of_text_substitutions)]],
          PyRef 3)
   \<and> map fst (entries_of (fst out_of_text_substitutions) (snd out_of_text_substitutions)) =
       [PyTuple [PyInt (- 3), PyInt (- 1)], PyTuple [PyInt 0, PyInt 9]]
   \<and> \<not> range_within (length ''hello'') (PyTuple [PyInt (- 3), PyInt (- 1)])
   \<and> \<not> range_within (length ''hello'') (PyTuple [PyInt 0, PyInt 9])"
  by (simp add: out_of_text_store EFBMsgTargetSubstitution_init_def check_substitution_def raise_formatted_def
      isinstance_def issubclass_def getattr_def entries_of_def alloc_def deref_def)

lemma mention_store:
  "mention_substitutions =
     ([DictObj [],
       InstObj EFBMsg
        [(''source'', PyChatType User), (''type'', PyMsgType Text),
         (''member'', PyNone), (''origin'', PyNone), (''destination'', PyNone),
         (''target'', PyNone), (''uid'', PyNone), (''text'', PyStr []),
         (''url'', PyNone), (''path'', PyNone), (''file'', PyNone),
         (''mime'', PyNone), (''filename'', PyNone), (''attributes'', PyNone),
         (''is_system'', PyBool False), (''edit'', PyBool False),
         (''vendor_specific'', PyRef 0), (''is_chat'', PyBool False)],
       DictObj [(PyTuple [PyInt 0, PyInt 5], PyRef 1)]],
      PyRef 2)"
  by (simp add: mention_substitutions_def substitutions_to_flagged_message_def
      EFBMsg_init_def alloc_def setattr_def mutate_def deref_def)

theorem EFBMsgTargetSubstitution_init_keys_witness:
  "EFBMsgTargetSubstitution_init (fst mention_substitutions) (snd mention_substitutions) =
     Inr (fst mention_substitutions @
            [InstObj EFBMsgTargetSubstitution [(''substitutions'', snd mention_substitutions)]],
          PyRef 3)
   \<and> PyTuple [PyInt 0, PyInt 5] \<in> set (map fst (entries_of
        (fst mention_substitutions @
            [InstObj EFBMsgTargetSubstitution [(''substitutions'', snd mention_substitutions)]])
        (snd mention_substitutions)))
   \<and> getattr
        (fst mention_substitutions @
            [InstObj EFBMsgTargetSubstitution [(''substitutions'', snd mention_substitutions)]])
        (PyRef 3) ''substitutions'' = Inr (snd mention_substitutions)
   \<and> int_of (PyInt 0) < int_of (PyInt 5)"
proof -
  let ?h = "fst mention_substitutions"
  let ?s = "snd mention_substitutions"
  let ?h' = "?h @ [InstObj EFBMsgTargetSubstitution [(''substitutions'', ?s)]]"
  have run: "EFBMsgTargetSubstitution_init ?h ?s = Inr (?h', PyRef 3)"
    by (simp add: mention_store EFBMsgTargetSubstitution_init_def check_substitution_def raise_formatted_def
        isinstance_def issubclass_def getattr_def alloc_def deref_def)
  have key: "PyTuple [PyInt 0, PyInt 5] \<in> set (map fst (entries_of ?h' ?s))"
    by (simp add: mention_store entries_of_def deref_def)
  from EFBMsgTargetSubstitution_init_keys [OF run key] run key
  show ?thesis by auto
qed

section \<open>EFBMsgTargetSubstitution: what the values may be\<close>

text \<open>
  The \<^verbatim>\<open>ValueError\<close> of the loop of \<^verbatim>\<open>EFBMsgTargetSubstitution.__init__\<close> is never raised:
  where the \<^verbatim>\<open>raise\<close> is reached the key is a tuple of two items, which the format of the
  message rejects.
\<close>

lemma check_substitution_not_ValueError: "check_substitution h d i \<noteq> Some ValueError"
proof (cases "index_ok i")
  case False
  then show ?thesis
    by (cases i rule: format_one.cases)
       (simp_all add: check_substitution_def raise_formatted_def)
next
  case True
  then obtain a b where "i = PyTuple [a, b]"
    by (induction i rule: index_ok.induct) simp_all
  then show ?thesis
    by (simp add: check_substitution_def raise_formatted_def getattr_def
        split: option.splits sum.splits pyobj.splits)
qed

text \<open>
  C2. The class documents its values as chats that are not groups. With the key \<open>(0, 5)\<close>:
  a user chat is rejected with \<^verbatim>\<open>TypeError\<close> because it is not an \<^verbatim>\<open>EFBMsg\<close>; a group
  chat is rejected with the same \<^verbatim>\<open>TypeError\<close>, not with \<^verbatim>\<open>ValueError\<close>; and a message
  made by \<^verbatim>\<open>EFBMsg()\<close> passes that test and then fails with \<^verbatim>\<open>AttributeError\<close>,
  since a message has no attribute \<^verbatim>\<open>is_chat\<close>.
\<close>

theorem EFBMsgTargetSubstitution_init_rejects_user_values:
  "EFBMsgTargetSubstitution_init
       (fst (substitutions_to_chat (chat_attributes User) [PyTuple [PyInt 0, PyInt 5]]))
       (snd (substitutions_to_chat (chat_attributes User) [PyTuple [PyInt 0, PyInt 5]])) =
     Inl TypeError
   \<and> EFBMsgTargetSubstitution_init
       (fst (substitutions_to_chat (chat_attributes Group) [PyTuple [PyInt 0, PyInt 5]]))
       (snd (substitutions_to_chat (chat_attributes Group) [PyTuple [PyInt 0, PyInt 5]])) =
     Inl TypeError
   \<and> EFBMsgTargetSubstitution_init
       (fst (substitutions_to_message [PyTuple [PyInt 0, PyInt 5]]))
       (snd (substitutions_to_message [PyTuple [PyInt 0, PyInt 5]])) =
     Inl AttributeError"
  by (simp add: substitutions_to_chat_def substitutions_to_message_def chat_attributes_def
      EFBMsg_init_def EFBMsgTargetSubstitution_init_def check_substitution_def raise_formatted_def
      isinstance_def issubclass_def getattr_def alloc_def deref_def)

end
